theory Spec2Isabelle
  imports Complex_Main
begin

unbundle bit_operations_syntax

section \<open>Shelyak spectrograph control: the K8056 relay driver and the observing modes\<close>

text \<open>
  A shallow embedding of \<^verbatim>\<open>spectrograph.py\<close>. Python integers are \<open>int\<close>, the
  delay handed to \<^verbatim>\<open>sleep\<close> is a \<open>real\<close>, dictionaries are association lists in
  insertion order (the order \<^verbatim>\<open>items()\<close> iterates in), and every exception is a value
  \<open>Inl e\<close> of the result.

  Everything the program does to the outside world is appended to one trace of events:
  the bytes handed to \<^verbatim>\<open>Serial.write\<close>, the calls of \<^verbatim>\<open>sleep\<close>, and the messages
  handed to \<^verbatim>\<open>sio.emit\<close>. The serial port and the socket are external: whether the
  port can be opened is a parameter of the constructors (\<^verbatim>\<open>Serial(device, 2400)\<close> raises
  \<^verbatim>\<open>SerialException\<close> when it cannot), and on an open port a write and an emit are
  taken to succeed. \<^verbatim>\<open>sleep\<close> raises \<^verbatim>\<open>ValueError\<close> on a negative delay and
  \<^verbatim>\<open>bytearray\<close> raises \<^verbatim>\<open>ValueError\<close> on an element outside \<^verbatim>\<open>range(256)\<close>, as
  CPython does.
\<close>

subsection \<open>Errors, events and sequencing\<close>

datatype error =
    Exception string
  | KeyError string
  | ValueError string
  | SerialException string

abbreviation InvalidRelayIndex :: error where
  "InvalidRelayIndex \<equiv> Exception ''invalid relay number''"

type_synonym status = "(string \<times> string) list"

type_synonym port_status_map = "(string \<times> status) list"

datatype ('i, 'a) payload =
    Status_data 'i port_status_map
  | Instructions 'a

datatype ('i, 'a) event =
    Open string int
  | Write "int list"
  | Sleep real
  | Emit string "('i, 'a) payload"

type_synonym ('s, 'r) act = "'s \<Rightarrow> (error + 'r) \<times> 's"

definition return_act :: "'r \<Rightarrow> ('s, 'r) act" where
  "return_act x s = (Inr x, s)"

definition raise_act :: "error \<Rightarrow> ('s, 'r) act" where
  "raise_act e s = (Inl e, s)"

text \<open>Statement after statement: an exception in the first skips the second.\<close>

definition bind_act :: "('s, 'q) act \<Rightarrow> ('q \<Rightarrow> ('s, 'r) act) \<Rightarrow> ('s, 'r) act" where
  "bind_act m f s = (case m s of (Inl e, s') \<Rightarrow> (Inl e, s') | (Inr x, s') \<Rightarrow> f x s')"

subsection \<open>Library calls\<close>

definition bytearray :: "int list \<Rightarrow> error + int list" where
  "bytearray xs =
     (if list_all (\<lambda>b. 0 \<le> b \<and> b < 256) xs then Inr xs
      else Inl (ValueError ''byte must be in range(0, 256)''))"

definition serial_write :: "int list \<Rightarrow> (('i, 'a) event list, unit) act" where
  "serial_write bs tr = (Inr (), tr @ [Write bs])"

definition sleep :: "real \<Rightarrow> (('i, 'a) event list, unit) act" where
  "sleep t tr =
     (if t < 0 then (Inl (ValueError ''sleep length must be non-negative''), tr)
      else (Inr (), tr @ [Sleep t]))"

subsection \<open>class K8056\<close>

record K8056 =
  repeat :: int
  wait :: real

text \<open>
  \<^verbatim>\<open>Serial(device, 2400)\<close>: \<open>openable\<close> says whether the operating system grants the port.
  When it does not, the constructor raises and nothing is opened.
\<close>

definition Serial :: "bool \<Rightarrow> string \<Rightarrow> int \<Rightarrow> (('i, 'a) event list, unit) act" where
  "Serial openable dev baud tr =
     (if openable then (Inr (), tr @ [Open dev baud])
      else (Inl (SerialException dev), tr))"

text \<open>
  \<^verbatim>\<open>__init__(self, device, repeat=0, wait=0)\<close>: opens the port at 2400 baud, stores
  \<^verbatim>\<open>repeat\<close> and \<^verbatim>\<open>wait\<close>, and sleeps 0.1 s. A port that cannot be opened ends the
  constructor with the exception of \<^verbatim>\<open>Serial\<close>.
\<close>

definition K8056_init ::
  "bool \<Rightarrow> string \<Rightarrow> int \<Rightarrow> real \<Rightarrow> ('i, 'a) event list \<Rightarrow> (error + K8056) \<times> ('i, 'a) event list" where
  "K8056_init openable dev rep w =
     bind_act (Serial openable dev 2400)
       (\<lambda>_. bind_act (sleep (1 / 10))
         (\<lambda>_. return_act \<lparr>repeat = rep, wait = w\<rparr>))"

text \<open>
  The body of \<^verbatim>\<open>for i in range(self.repeat + 1)\<close> in \<^verbatim>\<open>_process\<close>, run \<open>n\<close> times:
  build the bytearray, write it, sleep.
\<close>

fun process_loop ::
  "nat \<Rightarrow> K8056 \<Rightarrow> int \<Rightarrow> int \<Rightarrow> int \<Rightarrow> int \<Rightarrow> (('i, 'a) event list, unit) act" where
  "process_loop 0 self instruction byte address cksum = return_act ()"
| "process_loop (Suc n) self instruction byte address cksum =
     (case bytearray [13, address, instruction, byte, cksum] of
        Inl e \<Rightarrow> raise_act e
      | Inr frame \<Rightarrow>
          bind_act (serial_write frame)
            (\<lambda>_. bind_act (sleep (wait self))
              (\<lambda>_. process_loop n self instruction byte address cksum)))"

text \<open>\<^verbatim>\<open>range(self.repeat + 1)\<close> is empty when \<^verbatim>\<open>self.repeat + 1 <= 0\<close>.\<close>

definition K8056_process ::
  "K8056 \<Rightarrow> int \<Rightarrow> int \<Rightarrow> int \<Rightarrow> (('i, 'a) event list, unit) act" where
  "K8056_process self instruction byte address =
     (let cksum = (243 - instruction - byte - address) AND 255
      in process_loop (nat (repeat self + 1)) self instruction byte address cksum)"

definition K8056_set :: "K8056 \<Rightarrow> int \<Rightarrow> int \<Rightarrow> (('i, 'a) event list, unit) act" where
  "K8056_set self relay address =
     (if \<not> (0 < relay \<and> relay < 10) then raise_act (Exception ''invalid relay number'')
      else K8056_process self 83 (relay + 48) (address AND 255))"

definition K8056_clear :: "K8056 \<Rightarrow> int \<Rightarrow> int \<Rightarrow> (('i, 'a) event list, unit) act" where
  "K8056_clear self relay address =
     (if \<not> (0 < relay \<and> relay < 10) then raise_act (Exception ''invalid relay number'')
      else K8056_process self 67 (relay + 48) (address AND 255))"

definition K8056_toggle :: "K8056 \<Rightarrow> int \<Rightarrow> int \<Rightarrow> (('i, 'a) event list, unit) act" where
  "K8056_toggle self relay address =
     (if \<not> (0 < relay \<and> relay < 10) then raise_act (Exception ''invalid relay number'')
      else K8056_process self 84 (relay + 48) (address AND 255))"

definition K8056_set_address :: "K8056 \<Rightarrow> int \<Rightarrow> int \<Rightarrow> (('i, 'a) event list, unit) act" where
  "K8056_set_address self new address = K8056_process self 65 (new AND 255) (address AND 255)"

definition K8056_send_byte :: "K8056 \<Rightarrow> int \<Rightarrow> int \<Rightarrow> (('i, 'a) event list, unit) act" where
  "K8056_send_byte self num address = K8056_process self 66 (num AND 255) (address AND 255)"

definition K8056_emergency_stop :: "K8056 \<Rightarrow> (('i, 'a) event list, unit) act" where
  "K8056_emergency_stop self = K8056_process self 69 1 1"

definition K8056_force_address :: "K8056 \<Rightarrow> (('i, 'a) event list, unit) act" where
  "K8056_force_address self = K8056_process self 70 1 1"

definition K8056_get_address :: "K8056 \<Rightarrow> (('i, 'a) event list, unit) act" where
  "K8056_get_address self = K8056_process self 68 1 1"

text \<open>The eight public commands as one call, to speak of any command of the driver.\<close>

datatype command =
    Set int int
  | Clear int int
  | Toggle int int
  | Set_address int int
  | Send_byte int int
  | Emergency_stop
  | Force_address
  | Get_address

fun issue :: "K8056 \<Rightarrow> command \<Rightarrow> (('i, 'a) event list, unit) act" where
  "issue self (Set relay address) = K8056_set self relay address"
| "issue self (Clear relay address) = K8056_clear self relay address"
| "issue self (Toggle relay address) = K8056_toggle self relay address"
| "issue self (Set_address new address) = K8056_set_address self new address"
| "issue self (Send_byte num address) = K8056_send_byte self num address"
| "issue self Emergency_stop = K8056_emergency_stop self"
| "issue self Force_address = K8056_force_address self"
| "issue self Get_address = K8056_get_address self"

subsection \<open>class Spectrograph\<close>

definition PORTS :: "(string \<times> int) list" where
  "PORTS = [(''Mirror'', 1), (''LED'', 2), (''ThAr'', 3), (''Tung'', 4)]"

definition OFF_STATUS :: status where
  "OFF_STATUS = [(''value'', ''Off''), (''color'', ''warning'')]"

definition ON_STATUS :: status where
  "ON_STATUS = [(''value'', ''On''), (''color'', ''success'')]"

definition OBSERVING_MODES :: "(string \<times> port_status_map) list" where
  "OBSERVING_MODES =
     [(''object'', [(''Mirror'', OFF_STATUS), (''LED'', OFF_STATUS),
                    (''ThAr'', OFF_STATUS), (''Tung'', OFF_STATUS)]),
      (''dark'',   [(''Mirror'', ON_STATUS), (''LED'', OFF_STATUS),
                    (''ThAr'', OFF_STATUS), (''Tung'', OFF_STATUS)]),
      (''flat'',   [(''Mirror'', ON_STATUS), (''LED'', ON_STATUS),
                    (''ThAr'', OFF_STATUS), (''Tung'', OFF_STATUS)]),
      (''thar'',   [(''Mirror'', ON_STATUS), (''LED'', OFF_STATUS),
                    (''ThAr'', ON_STATUS), (''Tung'', OFF_STATUS)])]"

text \<open>
  The object: \<^verbatim>\<open>device\<close> is \<^verbatim>\<open>None\<close> in a simulation. \<^verbatim>\<open>status_dictionary\<close> is the
  class attribute, \<^verbatim>\<open>instrument_id\<close> is \<^verbatim>\<open>self.id\<close>, which the base class
  \<^verbatim>\<open>Instrument\<close> supplies and which is a parameter here. The base class is not part
  of this file; its initialiser is taken to do nothing else that the handlers can see.
\<close>

record 'i Spectrograph =
  device :: "K8056 option"
  simulation :: bool
  instrument_id :: 'i
  status_dictionary :: port_status_map

type_synonym ('i, 'a) world = "'i Spectrograph \<times> ('i, 'a) event list"

text \<open>A driver call made by the controller: it touches the trace and leaves the object alone.\<close>

definition on_device ::
  "(('i, 'a) event list, 'r) act \<Rightarrow> (('i, 'a) world, 'r) act" where
  "on_device m = (\<lambda>(self, tr). case m tr of (r, tr') \<Rightarrow> (r, (self, tr')))"

definition sio_emit :: "string \<Rightarrow> ('i, 'a) payload \<Rightarrow> (('i, 'a) world, unit) act" where
  "sio_emit name data = (\<lambda>(self, tr). (Inr (), (self, tr @ [Emit name data])))"

text \<open>
  \<^verbatim>\<open>__init__(self, device="/dev/cu.usbserial-AK068Y10", simulator=False)\<close>; the driver is
  built with its defaults \<^verbatim>\<open>repeat=0, wait=0\<close>. \<^verbatim>\<open>status_dictionary\<close> starts as
  \<^verbatim>\<open>OBSERVING_MODES["object"]\<close>.
\<close>

definition Spectrograph_init ::
  "bool \<Rightarrow> string \<Rightarrow> bool \<Rightarrow> 'i \<Rightarrow> ('i, 'a) event list \<Rightarrow>
     (error + 'i Spectrograph) \<times> ('i, 'a) event list" where
  "Spectrograph_init openable dev simulator ident tr =
     (case map_of OBSERVING_MODES ''object'' of
        None \<Rightarrow> (Inl (KeyError ''object''), tr)
      | Some initial \<Rightarrow>
          (if simulator then
             (Inr \<lparr>device = None, simulation = simulator, instrument_id = ident,
                   status_dictionary = initial\<rparr>, tr)
           else
             (case K8056_init openable dev 0 0 tr of
                (Inl e, tr') \<Rightarrow> (Inl e, tr')
              | (Inr k, tr') \<Rightarrow>
                  (Inr \<lparr>device = Some k, simulation = simulator, instrument_id = ident,
                        status_dictionary = initial\<rparr>, tr'))))"

definition turn_on :: "int \<Rightarrow> (('i, 'a) world, unit) act" where
  "turn_on port = (\<lambda>(self, tr).
     case device self of
       None \<Rightarrow> (Inr (), (self, tr))
     | Some d \<Rightarrow> on_device (K8056_set d port 1) (self, tr))"

definition turn_off :: "int \<Rightarrow> (('i, 'a) world, unit) act" where
  "turn_off port = (\<lambda>(self, tr).
     case device self of
       None \<Rightarrow> (Inr (), (self, tr))
     | Some d \<Rightarrow> on_device (K8056_clear d port 1) (self, tr))"

text \<open>The loop \<^verbatim>\<open>for port_name, settings in mode_ports.items()\<close> of \<^verbatim>\<open>set_obs_type\<close>.\<close>

fun set_obs_type_loop :: "port_status_map \<Rightarrow> (('i, 'a) world, unit) act" where
  "set_obs_type_loop [] = return_act ()"
| "set_obs_type_loop ((port_name, settings) # rest) =
     (case map_of settings ''value'' of
        None \<Rightarrow> raise_act (KeyError ''value'')
      | Some status_val \<Rightarrow>
          (case map_of PORTS port_name of
             None \<Rightarrow> raise_act (KeyError port_name)
           | Some port_num \<Rightarrow>
               bind_act (if status_val = ''On'' then turn_on port_num else turn_off port_num)
                 (\<lambda>_. set_obs_type_loop rest)))"

definition set_obs_type :: "string \<Rightarrow> (('i, 'a) world, unit) act" where
  "set_obs_type mode = (\<lambda>(self, tr).
     case map_of OBSERVING_MODES mode of
       None \<Rightarrow> (Inl (KeyError mode), (self, tr))
     | Some mode_ports \<Rightarrow>
         bind_act (set_obs_type_loop mode_ports)
           (\<lambda>_. sio_emit ''update_status'' (Status_data (instrument_id self) mode_ports))
           (self, tr))"

definition prepare_observation :: "string \<Rightarrow> 'a \<Rightarrow> (('i, 'a) world, unit) act" where
  "prepare_observation mode obs_instructions =
     bind_act (set_obs_type mode)
       (\<lambda>_. sio_emit ''spectrograph_changed_ports'' (Instructions obs_instructions))"

text \<open>
  The specification's words for \<^verbatim>\<open>prepareObservation\<close>, to compare the handler with:
  \<^verbatim>\<open>applyMode(mode)\<close>, which is \<open>set_obs_type\<close> above, followed by forwarding
  \<^verbatim>\<open>observationInstructions\<close> unchanged to the outbound channel, and nothing else.
  When \<^verbatim>\<open>applyMode\<close> fails there is nothing to follow.
\<close>

definition prepareObservation_spec :: "string \<Rightarrow> 'a \<Rightarrow> (('i, 'a) world, unit) act" where
  "prepareObservation_spec mode observationInstructions w =
     (case set_obs_type mode w of
        (Inl e, w') \<Rightarrow> (Inl e, w')
      | (Inr u, (self', tr')) \<Rightarrow>
          (Inr u, (self', tr' @ [Emit ''spectrograph_changed_ports''
                                   (Instructions observationInstructions)])))"

section \<open>The relay driver\<close>

subsection \<open>The transmission loop\<close>

lemma and_255_mod: "(x::int) AND 255 = x mod 256"
proof -
  have "(255::int) = mask 8" by (simp add: mask_eq_exp_minus_1)
  then have "x AND 255 = take_bit 8 x" by (simp add: take_bit_eq_mask)
  then show ?thesis by (simp add: take_bit_eq_mod)
qed

lemma process_loop_ok:
  assumes "0 \<le> a" "a < 256" "0 \<le> i" "i < 256" "0 \<le> b" "b < 256" "0 \<le> c" "c < 256"
    and "0 \<le> wait d"
  shows "process_loop n d i b a c tr =
           (Inr (), tr @ concat (replicate n [Write [13, a, i, b, c], Sleep (wait d)]))"
  using assms
  by (induction n arbitrary: tr)
     (simp_all add: return_act_def bind_act_def bytearray_def serial_write_def sleep_def)

lemma process_loop_events:
  "\<exists>evs. snd (process_loop n d i b a c tr) = tr @ evs \<and>
         set evs \<subseteq> {Write [13, a, i, b, c], Sleep (wait d)}"
proof (induction n arbitrary: tr)
  case 0
  show ?case by (simp add: return_act_def)
next
  case (Suc n)
  show ?case
  proof (cases "bytearray [13, a, i, b, c]")
    case (Inl e)
    then show ?thesis by (simp add: raise_act_def)
  next
    case (Inr frame)
    then have fr: "frame = [13, a, i, b, c]"
      by (simp add: bytearray_def split: if_splits)
    show ?thesis
    proof (cases "wait d < 0")
      case True
      with Inr fr show ?thesis
        by (simp add: bind_act_def serial_write_def sleep_def)
    next
      case False
      from Suc [of "tr @ [Write [13, a, i, b, c], Sleep (wait d)]"]
      obtain evs where
        "snd (process_loop n d i b a c (tr @ [Write [13, a, i, b, c], Sleep (wait d)])) =
           (tr @ [Write [13, a, i, b, c], Sleep (wait d)]) @ evs"
        and "set evs \<subseteq> {Write [13, a, i, b, c], Sleep (wait d)}"
        by blast
      with False Inr fr show ?thesis
        by (simp add: bind_act_def serial_write_def sleep_def)
    qed
  qed
qed

lemma process_loop_error:
  "fst (process_loop n d i b a c tr) = Inl e \<Longrightarrow> \<exists>s. e = ValueError s"
  by (induction n arbitrary: tr)
     (auto simp: return_act_def raise_act_def bind_act_def bytearray_def serial_write_def
        sleep_def split: if_splits)

lemma process_loop_range:
  "snd (process_loop n d i b a c tr) = tr @ evs \<Longrightarrow> evs \<noteq> [] \<Longrightarrow>
     list_all (\<lambda>x. 0 \<le> x \<and> x < 256) [13, a, i, b, c]"
  by (cases n) (auto simp: return_act_def raise_act_def bytearray_def split: if_splits)

lemma K8056_process_ok:
  assumes "0 \<le> a" "a < 256" "0 \<le> i" "i < 256" "0 \<le> b" "b < 256" and "0 \<le> wait d"
  shows "K8056_process d i b a tr =
           (Inr (), tr @ concat (replicate (nat (repeat d + 1))
              [Write [13, a, i, b, (243 - i - b - a) mod 256], Sleep (wait d)]))"
  using assms by (simp add: K8056_process_def and_255_mod process_loop_ok)

lemma K8056_process_events:
  "\<exists>evs. snd (K8056_process d i b a tr) = tr @ evs \<and>
         set evs \<subseteq> {Write [13, a, i, b, (243 - i - b - a) mod 256], Sleep (wait d)}"
  using process_loop_events [of "nat (repeat d + 1)" d i b a "(243 - i - b - a) mod 256" tr]
  by (simp add: K8056_process_def and_255_mod)

lemma K8056_process_error:
  "fst (K8056_process d i b a tr) = Inl e \<Longrightarrow> \<exists>s. e = ValueError s"
  unfolding K8056_process_def Let_def by (rule process_loop_error)

lemma K8056_process_frame:
  assumes "snd (K8056_process d i b a tr) = tr @ evs" and "Write f \<in> set evs"
  shows "f = [13, a, i, b, (243 - i - b - a) mod 256] \<and> length f = 5 \<and>
         list_all (\<lambda>x. 0 \<le> x \<and> x < 256) f"
proof -
  from K8056_process_events [of d i b a tr] assms
  have f: "f = [13, a, i, b, (243 - i - b - a) mod 256]" by auto
  from assms(2) have ne: "evs \<noteq> []" by auto
  from assms(1) have
    "snd (process_loop (nat (repeat d + 1)) d i b a ((243 - i - b - a) mod 256) tr) = tr @ evs"
    by (simp add: K8056_process_def and_255_mod)
  from process_loop_range [OF this ne] f show ?thesis by simp
qed

subsection \<open>The frame of every command\<close>

text \<open>
  Claim C1. For every command of the driver (set, clear, toggle, set_address, send_byte,
  emergency_stop, force_address, get_address), whatever the configuration and the
  arguments, every frame the call hands to the serial port is the five bytes
  \<open>[13, address, instruction, data, checksum]\<close> of that command, each byte in
  \<open>0..255\<close>, with \<open>checksum = (243 - instruction - data - address) mod 256\<close>.
  \<open>evs\<close> are the events the call appends to the trace.
\<close>

theorem frames_carry_checksum:
  assumes "snd (issue d c tr) = tr @ evs" and "Write f \<in> set evs"
  shows "(let (address, instruction, data) =
            (case c of
               Set relay a \<Rightarrow> (a mod 256, 83, relay + 48)
             | Clear relay a \<Rightarrow> (a mod 256, 67, relay + 48)
             | Toggle relay a \<Rightarrow> (a mod 256, 84, relay + 48)
             | Set_address new a \<Rightarrow> (a mod 256, 65, new mod 256)
             | Send_byte num a \<Rightarrow> (a mod 256, 66, num mod 256)
             | Emergency_stop \<Rightarrow> (1, 69, 1)
             | Force_address \<Rightarrow> (1, 70, 1)
             | Get_address \<Rightarrow> (1, 68, 1))
         in f = [13, address, instruction, data, (243 - instruction - data - address) mod 256]
            \<and> length f = 5 \<and> list_all (\<lambda>b. 0 \<le> b \<and> b < 256) f)"
proof (cases c)
  case (Set relay a)
  show ?thesis
  proof (cases "0 < relay \<and> relay < 10")
    case True
    with assms Set have "snd (K8056_process d 83 (relay + 48) (a mod 256) tr) = tr @ evs"
      by (simp add: K8056_set_def and_255_mod)
    from K8056_process_frame [OF this assms(2)] Set True show ?thesis by simp
  next
    case False
    with assms Set show ?thesis by (auto simp: K8056_set_def raise_act_def)
  qed
next
  case (Clear relay a)
  show ?thesis
  proof (cases "0 < relay \<and> relay < 10")
    case True
    with assms Clear have "snd (K8056_process d 67 (relay + 48) (a mod 256) tr) = tr @ evs"
      by (simp add: K8056_clear_def and_255_mod)
    from K8056_process_frame [OF this assms(2)] Clear True show ?thesis by simp
  next
    case False
    with assms Clear show ?thesis by (auto simp: K8056_clear_def raise_act_def)
  qed
next
  case (Toggle relay a)
  show ?thesis
  proof (cases "0 < relay \<and> relay < 10")
    case True
    with assms Toggle have "snd (K8056_process d 84 (relay + 48) (a mod 256) tr) = tr @ evs"
      by (simp add: K8056_toggle_def and_255_mod)
    from K8056_process_frame [OF this assms(2)] Toggle True show ?thesis by simp
  next
    case False
    with assms Toggle show ?thesis by (auto simp: K8056_toggle_def raise_act_def)
  qed
next
  case (Set_address new a)
  with assms have "snd (K8056_process d 65 (new mod 256) (a mod 256) tr) = tr @ evs"
    by (simp add: K8056_set_address_def and_255_mod)
  from K8056_process_frame [OF this assms(2)] Set_address show ?thesis by simp
next
  case (Send_byte num a)
  with assms have "snd (K8056_process d 66 (num mod 256) (a mod 256) tr) = tr @ evs"
    by (simp add: K8056_send_byte_def and_255_mod)
  from K8056_process_frame [OF this assms(2)] Send_byte show ?thesis by simp
next
  case Emergency_stop
  with assms have "snd (K8056_process d 69 1 1 tr) = tr @ evs"
    by (simp add: K8056_emergency_stop_def)
  from K8056_process_frame [OF this assms(2)] Emergency_stop show ?thesis by simp
next
  case Force_address
  with assms have "snd (K8056_process d 70 1 1 tr) = tr @ evs"
    by (simp add: K8056_force_address_def)
  from K8056_process_frame [OF this assms(2)] Force_address show ?thesis by simp
next
  case Get_address
  with assms have "snd (K8056_process d 68 1 1 tr) = tr @ evs"
    by (simp add: K8056_get_address_def)
  from K8056_process_frame [OF this assms(2)] Get_address show ?thesis by simp
qed

theorem frames_carry_checksum_witness:
  "snd (issue \<lparr>repeat = 0, wait = 0\<rparr> (Set 3 (-255)) ([] :: (unit, unit) event list))
     = [] @ [Write [13, 1, 83, 51, 108], Sleep 0]
   \<and> Write [13, 1, 83, 51, 108] \<in> set ([Write [13, 1, 83, 51, 108], Sleep 0] :: (unit, unit) event list)
   \<and> [13, 1, 83, 51, 108] = [13, (-255) mod 256, 83, 3 + 48, (243 - 83 - (3 + 48) - (-255) mod 256) mod (256::int)]"
  using frames_carry_checksum [of "\<lparr>repeat = 0, wait = 0\<rparr>" "Set 3 (-255)"
      "[] :: (unit, unit) event list" "[Write [13, 1, 83, 51, 108], Sleep 0]" "[13, 1, 83, 51, 108]"]
  by (simp add: K8056_set_def K8056_process_def and_255_mod bind_act_def return_act_def
        bytearray_def serial_write_def sleep_def)

subsection \<open>Repetition\<close>

lemma issue_rejected:
  "fst (issue d c tr) = Inl InvalidRelayIndex \<longleftrightarrow>
     (case c of Set r a \<Rightarrow> \<not> (0 < r \<and> r < 10) | Clear r a \<Rightarrow> \<not> (0 < r \<and> r < 10)
      | Toggle r a \<Rightarrow> \<not> (0 < r \<and> r < 10) | _ \<Rightarrow> False)"
  by (cases c)
     (auto simp: K8056_set_def K8056_clear_def K8056_toggle_def K8056_set_address_def
        K8056_send_byte_def K8056_emergency_stop_def K8056_force_address_def
        K8056_get_address_def raise_act_def dest: K8056_process_error)

text \<open>
  Claim C2. With a repeat count \<open>k \<ge> 0\<close> and a delay \<open>wait \<ge> 0\<close>, a call of any of the
  eight commands, with a relay index in \<open>[1,9]\<close> where the command takes one (set, clear,
  toggle) and any arguments otherwise, returns normally and appends exactly \<open>k + 1\<close>
  writes of one and the same frame, each followed by a sleep of \<open>wait\<close> seconds, the last
  one included. (A relay index outside \<open>[1,9]\<close> is the subject of C3.)
\<close>

theorem repeat_plus_one_writes:
  assumes "0 \<le> repeat d" and "0 \<le> wait d"
    and "case c of Set r a \<Rightarrow> 1 \<le> r \<and> r \<le> 9 | Clear r a \<Rightarrow> 1 \<le> r \<and> r \<le> 9
         | Toggle r a \<Rightarrow> 1 \<le> r \<and> r \<le> 9 | _ \<Rightarrow> True"
  shows "\<exists>frame. issue d c tr =
           (Inr (), tr @ concat (replicate (nat (repeat d) + 1) [Write frame, Sleep (wait d)]))"
proof -
  have n: "nat (repeat d + 1) = nat (repeat d) + 1"
    using assms(1) by simp
  have go: "\<exists>frame. K8056_process d i b a tr =
           (Inr (), tr @ concat (replicate (nat (repeat d) + 1) [Write frame, Sleep (wait d)]))"
    if "0 \<le> a" "a < 256" "0 \<le> i" "i < 256" "0 \<le> b" "b < 256" for i b a
    using K8056_process_ok [OF that assms(2), of tr] n by auto
  from assms(3) have ok: "case c of Set r a \<Rightarrow> 0 < r \<and> r < 10 | Clear r a \<Rightarrow> 0 < r \<and> r < 10
      | Toggle r a \<Rightarrow> 0 < r \<and> r < 10 | _ \<Rightarrow> True"
    by (simp split: command.splits)
  show ?thesis
  proof (cases c)
    case (Set r a)
    with ok go [of "a mod 256" 83 "r + 48"] show ?thesis
      by (simp add: K8056_set_def and_255_mod)
  next
    case (Clear r a)
    with ok go [of "a mod 256" 67 "r + 48"] show ?thesis
      by (simp add: K8056_clear_def and_255_mod)
  next
    case (Toggle r a)
    with ok go [of "a mod 256" 84 "r + 48"] show ?thesis
      by (simp add: K8056_toggle_def and_255_mod)
  next
    case (Set_address new a)
    with go [of "a mod 256" 65 "new mod 256"] show ?thesis
      by (simp add: K8056_set_address_def and_255_mod)
  next
    case (Send_byte num a)
    with go [of "a mod 256" 66 "num mod 256"] show ?thesis
      by (simp add: K8056_send_byte_def and_255_mod)
  next
    case Emergency_stop
    with go [of 1 69 1] show ?thesis by (simp add: K8056_emergency_stop_def)
  next
    case Force_address
    with go [of 1 70 1] show ?thesis by (simp add: K8056_force_address_def)
  next
    case Get_address
    with go [of 1 68 1] show ?thesis by (simp add: K8056_get_address_def)
  qed
qed

lemma K8056_process_eval:
  "K8056_process \<lparr>repeat = 2, wait = 1 / 2\<rparr> 69 1 1 ([] :: (unit, unit) event list) =
     (Inr (), [Write [13, 1, 69, 1, 172], Sleep (1 / 2), Write [13, 1, 69, 1, 172], Sleep (1 / 2),
               Write [13, 1, 69, 1, 172], Sleep (1 / 2)])"
  by (simp add: K8056_process_def and_255_mod bind_act_def return_act_def
        bytearray_def serial_write_def sleep_def numeral_3_eq_3)

theorem repeat_plus_one_writes_witness:
  "(0::int) \<le> repeat \<lparr>repeat = 2, wait = 1 / 2\<rparr> \<and> (0::real) \<le> wait \<lparr>repeat = 2, wait = 1 / 2\<rparr>
   \<and> ((1::int) \<le> 3 \<and> (3::int) \<le> 9)
   \<and> (\<exists>frame. issue \<lparr>repeat = 2, wait = 1 / 2\<rparr> (Toggle 3 1) ([] :: (unit, unit) event list) =
        (Inr (), [] @ concat (replicate (nat (repeat \<lparr>repeat = 2, wait = 1 / 2\<rparr>) + 1)
                   [Write frame, Sleep (wait \<lparr>repeat = 2, wait = 1 / 2\<rparr>)])))
   \<and> (\<exists>frame. issue \<lparr>repeat = 2, wait = 1 / 2\<rparr> Emergency_stop ([] :: (unit, unit) event list) =
        (Inr (), [] @ concat (replicate (nat (repeat \<lparr>repeat = 2, wait = 1 / 2\<rparr>) + 1)
                   [Write frame, Sleep (wait \<lparr>repeat = 2, wait = 1 / 2\<rparr>)])))
   \<and> issue \<lparr>repeat = 2, wait = 1 / 2\<rparr> Emergency_stop ([] :: (unit, unit) event list) =
        (Inr (), [Write [13, 1, 69, 1, 172], Sleep (1 / 2), Write [13, 1, 69, 1, 172], Sleep (1 / 2),
                  Write [13, 1, 69, 1, 172], Sleep (1 / 2)])"
  using repeat_plus_one_writes [of "\<lparr>repeat = 2, wait = 1 / 2\<rparr>" "Toggle 3 1"
      "[] :: (unit, unit) event list"]
    repeat_plus_one_writes [of "\<lparr>repeat = 2, wait = 1 / 2\<rparr>" Emergency_stop
      "[] :: (unit, unit) event list"]
  by (simp add: K8056_emergency_stop_def K8056_process_eval)

subsection \<open>Validation of the relay index\<close>

text \<open>
  Claim C3. For a relay index outside \<open>[1,9]\<close>, set, clear and toggle raise
  \<^verbatim>\<open>Exception("invalid relay number")\<close> and leave the trace as it was: no byte is written.
  For an index in \<open>[1,9]\<close> none of them raises that exception, whatever the
  configuration, and with a delay \<open>wait \<ge> 0\<close> they return normally.
\<close>

theorem relay_index_validated:
  "(\<not> (1 \<le> r \<and> r \<le> 9) \<longrightarrow>
      K8056_set d r a tr = (Inl InvalidRelayIndex, tr) \<and>
      K8056_clear d r a tr = (Inl InvalidRelayIndex, tr) \<and>
      K8056_toggle d r a tr = (Inl InvalidRelayIndex, tr)) \<and>
   (1 \<le> r \<and> r \<le> 9 \<longrightarrow>
      fst (K8056_set d r a tr) \<noteq> Inl InvalidRelayIndex \<and>
      fst (K8056_clear d r a tr) \<noteq> Inl InvalidRelayIndex \<and>
      fst (K8056_toggle d r a tr) \<noteq> Inl InvalidRelayIndex \<and>
      (0 \<le> wait d \<longrightarrow>
         fst (K8056_set d r a tr) = Inr () \<and>
         fst (K8056_clear d r a tr) = Inr () \<and>
         fst (K8056_toggle d r a tr) = Inr ()))"
proof (cases "1 \<le> r \<and> r \<le> 9")
  case False
  then show ?thesis
    by (auto simp: K8056_set_def K8056_clear_def K8056_toggle_def raise_act_def)
next
  case True
  then have v: "0 < r \<and> r < 10" by simp
  have no: "fst (K8056_process d i (r + 48) (a mod 256) tr) \<noteq> Inl InvalidRelayIndex" for i
    using K8056_process_error [of d i "r + 48" "a mod 256" tr] by auto
  have yes: "fst (K8056_process d i (r + 48) (a mod 256) tr) = Inr ()"
    if "0 \<le> wait d" "0 \<le> i" "i < 256" for i
    using K8056_process_ok [of "a mod 256" i "r + 48" d tr] that v by simp
  from True v no yes [of 83] yes [of 67] yes [of 84] show ?thesis
    by (simp add: K8056_set_def K8056_clear_def K8056_toggle_def and_255_mod)
qed

theorem relay_index_validated_witness:
  "\<not> (1 \<le> (0::int) \<and> (0::int) \<le> 9) \<and>
   K8056_set \<lparr>repeat = 0, wait = 0\<rparr> 0 1 ([] :: (unit, unit) event list) = (Inl InvalidRelayIndex, []) \<and>
   K8056_clear \<lparr>repeat = 0, wait = 0\<rparr> 0 1 ([] :: (unit, unit) event list) = (Inl InvalidRelayIndex, []) \<and>
   K8056_toggle \<lparr>repeat = 0, wait = 0\<rparr> 0 1 ([] :: (unit, unit) event list) = (Inl InvalidRelayIndex, []) \<and>
   (1 \<le> (9::int) \<and> (9::int) \<le> 9) \<and> (0::real) \<le> wait \<lparr>repeat = 0, wait = 0\<rparr> \<and>
   fst (K8056_set \<lparr>repeat = 0, wait = 0\<rparr> 9 1 ([] :: (unit, unit) event list)) = Inr () \<and>
   fst (K8056_clear \<lparr>repeat = 0, wait = 0\<rparr> 9 1 ([] :: (unit, unit) event list)) = Inr () \<and>
   fst (K8056_toggle \<lparr>repeat = 0, wait = 0\<rparr> 9 1 ([] :: (unit, unit) event list)) = Inr ()"
  using relay_index_validated [of 0 "\<lparr>repeat = 0, wait = 0\<rparr>" 1 "[] :: (unit, unit) event list"]
    relay_index_validated [of 9 "\<lparr>repeat = 0, wait = 0\<rparr>" 1 "[] :: (unit, unit) event list"]
  by simp

text \<open>
  Claim C4. For a relay index \<open>r\<close> in \<open>[1,9]\<close> and any integer address \<open>a\<close>, set
  transmits the frame with instruction 83, data byte \<open>r + 48\<close> and address
  \<open>a mod 256\<close> (Python's \<^verbatim>\<open>a & 255\<close>); clear transmits instruction 67 and toggle
  instruction 84, with the same data byte and address. The frame is sent
  \<^verbatim>\<open>len(range(repeat + 1))\<close> times, a sleep after each.
\<close>

theorem relay_commands_encoding:
  assumes "1 \<le> r" and "r \<le> 9" and "0 \<le> wait d"
  shows "K8056_set d r a tr =
           (Inr (), tr @ concat (replicate (nat (repeat d + 1))
              [Write [13, a mod 256, 83, r + 48, (243 - 83 - (r + 48) - a mod 256) mod 256],
               Sleep (wait d)])) \<and>
         K8056_clear d r a tr =
           (Inr (), tr @ concat (replicate (nat (repeat d + 1))
              [Write [13, a mod 256, 67, r + 48, (243 - 67 - (r + 48) - a mod 256) mod 256],
               Sleep (wait d)])) \<and>
         K8056_toggle d r a tr =
           (Inr (), tr @ concat (replicate (nat (repeat d + 1))
              [Write [13, a mod 256, 84, r + 48, (243 - 84 - (r + 48) - a mod 256) mod 256],
               Sleep (wait d)]))"
proof -
  have go: "K8056_process d i (r + 48) (a mod 256) tr =
           (Inr (), tr @ concat (replicate (nat (repeat d + 1))
              [Write [13, a mod 256, i, r + 48, (243 - i - (r + 48) - a mod 256) mod 256],
               Sleep (wait d)]))"
    if "0 \<le> i" "i < 256" for i
    using K8056_process_ok [of "a mod 256" i "r + 48" d tr] that assms by simp
  from assms go [of 83] go [of 67] go [of 84] show ?thesis
    by (simp add: K8056_set_def K8056_clear_def K8056_toggle_def and_255_mod)
qed

theorem relay_commands_encoding_witness:
  "(1::int) \<le> 9 \<and> (9::int) \<le> 9 \<and> (0::real) \<le> wait \<lparr>repeat = 0, wait = 0\<rparr> \<and>
   K8056_set \<lparr>repeat = 0, wait = 0\<rparr> 9 (-1) ([] :: (unit, unit) event list) =
     (Inr (), [Write [13, 255, 83, 57, 104], Sleep 0]) \<and>
   K8056_clear \<lparr>repeat = 0, wait = 0\<rparr> 9 (-1) ([] :: (unit, unit) event list) =
     (Inr (), [Write [13, 255, 67, 57, 120], Sleep 0]) \<and>
   K8056_toggle \<lparr>repeat = 0, wait = 0\<rparr> 9 (-1) ([] :: (unit, unit) event list) =
     (Inr (), [Write [13, 255, 84, 57, 103], Sleep 0])"
  using relay_commands_encoding [of 9 "\<lparr>repeat = 0, wait = 0\<rparr>" "- 1"
      "[] :: (unit, unit) event list"]
  by simp

section \<open>The observing modes\<close>

lemma bind_act_assoc:
  "bind_act (bind_act m f) g = bind_act m (\<lambda>x. bind_act (f x) g)"
  by (rule ext) (simp add: bind_act_def split: prod.splits sum.splits)

lemma bind_act_return: "bind_act (return_act x) f = f x"
  by (rule ext) (simp add: bind_act_def return_act_def)

lemma map_of_OBSERVING_MODES:
  "map_of OBSERVING_MODES ''object'' = Some [(''Mirror'', OFF_STATUS), (''LED'', OFF_STATUS),
                    (''ThAr'', OFF_STATUS), (''Tung'', OFF_STATUS)]"
  "map_of OBSERVING_MODES ''dark'' = Some [(''Mirror'', ON_STATUS), (''LED'', OFF_STATUS),
                    (''ThAr'', OFF_STATUS), (''Tung'', OFF_STATUS)]"
  "map_of OBSERVING_MODES ''flat'' = Some [(''Mirror'', ON_STATUS), (''LED'', ON_STATUS),
                    (''ThAr'', OFF_STATUS), (''Tung'', OFF_STATUS)]"
  "map_of OBSERVING_MODES ''thar'' = Some [(''Mirror'', ON_STATUS), (''LED'', OFF_STATUS),
                    (''ThAr'', ON_STATUS), (''Tung'', OFF_STATUS)]"
  by (simp_all add: OBSERVING_MODES_def)

lemma map_of_OBSERVING_MODES_None:
  "m \<notin> {''object'', ''dark'', ''flat'', ''thar''} \<Longrightarrow> map_of OBSERVING_MODES m = None"
  by (simp add: OBSERVING_MODES_def)

lemma map_of_PORTS:
  "map_of PORTS ''Mirror'' = Some 1" "map_of PORTS ''LED'' = Some 2"
  "map_of PORTS ''ThAr'' = Some 3" "map_of PORTS ''Tung'' = Some 4"
  by (simp_all add: PORTS_def)

lemma status_value:
  "map_of ON_STATUS ''value'' = Some ''On''" "map_of OFF_STATUS ''value'' = Some ''Off''"
  by (simp_all add: ON_STATUS_def OFF_STATUS_def)

lemma loop_unfold:
  "set_obs_type_loop [(''Mirror'', ON_STATUS), (''LED'', OFF_STATUS),
                    (''ThAr'', OFF_STATUS), (''Tung'', OFF_STATUS)] =
   bind_act (turn_on 1) (\<lambda>_. bind_act (turn_off 2) (\<lambda>_. bind_act (turn_off 3)
     (\<lambda>_. bind_act (turn_off 4) (\<lambda>_. return_act ()))))"
  by (simp add: map_of_PORTS status_value)

lemma turn_on_sim: "device self = None \<Longrightarrow> turn_on p (self, tr) = (Inr (), (self, tr))"
  by (simp add: turn_on_def)

lemma turn_off_sim: "device self = None \<Longrightarrow> turn_off p (self, tr) = (Inr (), (self, tr))"
  by (simp add: turn_off_def)

lemma loop_sim:
  "device self = None \<Longrightarrow>
     list_all (\<lambda>(p, s). map_of s ''value'' \<noteq> None \<and> map_of PORTS p \<noteq> None) v \<Longrightarrow>
     set_obs_type_loop v (self, tr) = (Inr (), (self, tr))"
  by (induction v) (auto simp: return_act_def bind_act_def turn_on_sim turn_off_sim)

text \<open>
  Claim C7. In a simulation (\<^verbatim>\<open>device is None\<close>), \<^verbatim>\<open>set_obs_type\<close> on any of the four
  recognised modes returns normally, leaves the object as it was, and appends a single
  event: the \<^verbatim>\<open>update_status\<close> message that carries the static vector of the mode.
  Nothing is written to a serial port.
\<close>

theorem simulation_writes_nothing:
  assumes "device self = None" and "m \<in> {''object'', ''dark'', ''flat'', ''thar''}"
  shows "\<exists>v. map_of OBSERVING_MODES m = Some v \<and>
           set_obs_type m (self, tr) =
             (Inr (), (self, tr @ [Emit ''update_status'' (Status_data (instrument_id self) v)]))"
proof -
  from assms(2) obtain v where v: "map_of OBSERVING_MODES m = Some v"
    and ok: "list_all (\<lambda>(p, s). map_of s ''value'' \<noteq> None \<and> map_of PORTS p \<noteq> None) v"
    by (auto simp: map_of_OBSERVING_MODES map_of_PORTS status_value)
  from loop_sim [OF assms(1) ok, of tr] v show ?thesis
    by (simp add: set_obs_type_def bind_act_def sio_emit_def)
qed

theorem simulation_writes_nothing_witness:
  "device \<lparr>device = None, simulation = True, instrument_id = (7::int),
           status_dictionary = [(''Mirror'', OFF_STATUS), (''LED'', OFF_STATUS),
                                (''ThAr'', OFF_STATUS), (''Tung'', OFF_STATUS)]\<rparr> = None \<and>
   ''thar'' \<in> {''object'', ''dark'', ''flat'', ''thar''} \<and>
   set_obs_type ''thar''
     (\<lparr>device = None, simulation = True, instrument_id = (7::int),
       status_dictionary = [(''Mirror'', OFF_STATUS), (''LED'', OFF_STATUS),
                            (''ThAr'', OFF_STATUS), (''Tung'', OFF_STATUS)]\<rparr>,
      [] :: (int, unit) event list) =
     (Inr (),
      (\<lparr>device = None, simulation = True, instrument_id = 7,
        status_dictionary = [(''Mirror'', OFF_STATUS), (''LED'', OFF_STATUS),
                             (''ThAr'', OFF_STATUS), (''Tung'', OFF_STATUS)]\<rparr>,
       [Emit ''update_status''
          (Status_data 7 [(''Mirror'', ON_STATUS), (''LED'', OFF_STATUS),
                          (''ThAr'', ON_STATUS), (''Tung'', OFF_STATUS)])]))"
  using simulation_writes_nothing [of
      "\<lparr>device = None, simulation = True, instrument_id = (7::int),
        status_dictionary = [(''Mirror'', OFF_STATUS), (''LED'', OFF_STATUS),
                             (''ThAr'', OFF_STATUS), (''Tung'', OFF_STATUS)]\<rparr>"
      "''thar''" "[] :: (int, unit) event list"]
  by (simp add: map_of_OBSERVING_MODES)

text \<open>
  Claim C8. For a mode name that is not one of object, dark, flat, thar, the lookup
  \<^verbatim>\<open>self.OBSERVING_MODES[mode]\<close> raises \<^verbatim>\<open>KeyError(mode)\<close>: no relay command is issued,
  nothing is emitted, and the object, its \<^verbatim>\<open>status_dictionary\<close> included, is unchanged.
\<close>

theorem unknown_mode_rejected:
  assumes "m \<notin> {''object'', ''dark'', ''flat'', ''thar''}"
  shows "set_obs_type m (self, tr) = (Inl (KeyError m), (self, tr))"
  using map_of_OBSERVING_MODES_None [OF assms] by (simp add: set_obs_type_def)

theorem unknown_mode_rejected_witness:
  "''unknown'' \<notin> {''object'', ''dark'', ''flat'', ''thar''} \<and>
   set_obs_type ''unknown''
     (\<lparr>device = Some \<lparr>repeat = 0, wait = 0\<rparr>, simulation = False, instrument_id = (7::int),
       status_dictionary = [(''Mirror'', ON_STATUS)]\<rparr>,
      [Sleep 0] :: (int, unit) event list) =
     (Inl (KeyError ''unknown''),
      (\<lparr>device = Some \<lparr>repeat = 0, wait = 0\<rparr>, simulation = False, instrument_id = 7,
        status_dictionary = [(''Mirror'', ON_STATUS)]\<rparr>,
       [Sleep 0]))"
  using unknown_mode_rejected [of "''unknown''"
      "\<lparr>device = Some \<lparr>repeat = 0, wait = 0\<rparr>, simulation = False, instrument_id = (7::int),
        status_dictionary = [(''Mirror'', ON_STATUS)]\<rparr>"
      "[Sleep 0] :: (int, unit) event list"]
  by simp

lemma K8056_process_step:
  "\<exists>res evs. K8056_process d i b a tr = (res, tr @ evs) \<and> res \<noteq> Inl InvalidRelayIndex \<and>
     (\<forall>f. Write f \<in> set evs \<longrightarrow> f = [13, a, i, b, (243 - i - b - a) mod 256])"
proof -
  obtain res tr' where r: "K8056_process d i b a tr = (res, tr')"
    by (cases "K8056_process d i b a tr")
  from K8056_process_events [of d i b a tr] r obtain evs where
    e: "tr' = tr @ evs" "set evs \<subseteq> {Write [13, a, i, b, (243 - i - b - a) mod 256], Sleep (wait d)}"
    by auto
  from K8056_process_error [of d i b a tr] r have "res \<noteq> Inl InvalidRelayIndex"
    by auto
  with r e show ?thesis by auto
qed

lemma turn_step:
  assumes "1 \<le> n" and "n \<le> 4" and "t = turn_on n \<or> t = turn_off n"
  shows "\<exists>res evs. t (self, tr) = (res, (self, tr @ evs)) \<and> res \<noteq> Inl InvalidRelayIndex \<and>
     (\<forall>f. Write f \<in> set evs \<longrightarrow> (\<exists>a i r c. f = [13, a, i, r + 48, c] \<and> 1 \<le> r \<and> r \<le> 4))"
proof (cases "device self")
  case None
  with assms(3) show ?thesis by (auto simp: turn_on_def turn_off_def)
next
  case (Some d)
  from assms(3) show ?thesis
  proof
    assume t: "t = turn_on n"
    from K8056_process_step [of d 83 "n + 48" "1 mod 256" tr] obtain res evs where
      "K8056_process d 83 (n + 48) (1 mod 256) tr = (res, tr @ evs)"
      "res \<noteq> Inl InvalidRelayIndex"
      "\<forall>f. Write f \<in> set evs \<longrightarrow> f = [13, 1 mod 256, 83, n + 48, (243 - 83 - (n + 48) - 1 mod 256) mod 256]"
      by blast
    with assms(1,2) Some t show ?thesis
      by (auto simp: turn_on_def on_device_def K8056_set_def and_255_mod)
  next
    assume t: "t = turn_off n"
    from K8056_process_step [of d 67 "n + 48" "1 mod 256" tr] obtain res evs where
      "K8056_process d 67 (n + 48) (1 mod 256) tr = (res, tr @ evs)"
      "res \<noteq> Inl InvalidRelayIndex"
      "\<forall>f. Write f \<in> set evs \<longrightarrow> f = [13, 1 mod 256, 67, n + 48, (243 - 67 - (n + 48) - 1 mod 256) mod 256]"
      by blast
    with assms(1,2) Some t show ?thesis
      by (auto simp: turn_off_def on_device_def K8056_clear_def and_255_mod)
  qed
qed

lemma loop_relays:
  assumes "list_all (\<lambda>(port_name, settings). case map_of PORTS port_name of
                        None \<Rightarrow> False | Some port_num \<Rightarrow> 1 \<le> port_num \<and> port_num \<le> 4) v"
  shows "\<exists>res evs. set_obs_type_loop v (self, tr) = (res, (self, tr @ evs)) \<and>
     res \<noteq> Inl InvalidRelayIndex \<and>
     (\<forall>f. Write f \<in> set evs \<longrightarrow> (\<exists>a i r c. f = [13, a, i, r + 48, c] \<and> 1 \<le> r \<and> r \<le> 4))"
  using assms
proof (induction v arbitrary: tr)
  case Nil
  show ?case by (simp add: return_act_def)
next
  case (Cons x v)
  obtain port_name settings where x: "x = (port_name, settings)" by (cases x)
  from Cons.prems x obtain n where n: "map_of PORTS port_name = Some n" "1 \<le> n" "n \<le> 4"
    by (auto split: option.splits)
  from Cons.prems have rest: "list_all (\<lambda>(port_name, settings). case map_of PORTS port_name of
                        None \<Rightarrow> False | Some port_num \<Rightarrow> 1 \<le> port_num \<and> port_num \<le> 4) v"
    by simp
  show ?case
  proof (cases "map_of settings ''value''")
    case None
    with x show ?thesis by (simp add: raise_act_def)
  next
    case (Some status_val)
    define t :: "(('a, 'b) world, unit) act"
      where "t = (if status_val = ''On'' then turn_on n else turn_off n)"
    then have "t = turn_on n \<or> t = turn_off n" by simp
    from turn_step [OF n(2,3) this, of self tr] obtain res1 evs1 where
      s1: "t (self, tr) = (res1, (self, tr @ evs1))" "res1 \<noteq> Inl InvalidRelayIndex"
        "\<forall>f. Write f \<in> set evs1 \<longrightarrow> (\<exists>a i r c. f = [13, a, i, r + 48, c] \<and> 1 \<le> r \<and> r \<le> 4)"
      by blast
    have unfold: "set_obs_type_loop (x # v) (self, tr) =
        bind_act t (\<lambda>_. set_obs_type_loop v) (self, tr)"
      using x n(1) Some by (simp add: t_def)
    show ?thesis
    proof (cases res1)
      case (Inl e)
      with s1 unfold show ?thesis by (simp add: bind_act_def)
    next
      case (Inr u)
      from Cons.IH [OF rest, of "tr @ evs1"] obtain res2 evs2 where
        s2: "set_obs_type_loop v (self, tr @ evs1) = (res2, (self, (tr @ evs1) @ evs2))"
          "res2 \<noteq> Inl InvalidRelayIndex"
          "\<forall>f. Write f \<in> set evs2 \<longrightarrow> (\<exists>a i r c. f = [13, a, i, r + 48, c] \<and> 1 \<le> r \<and> r \<le> 4)"
        by blast
      have "set_obs_type_loop (x # v) (self, tr) = (res2, (self, tr @ (evs1 @ evs2)))"
        using unfold s1(1) s2(1) Inr by (simp add: bind_act_def)
      moreover have "\<forall>f. Write f \<in> set (evs1 @ evs2) \<longrightarrow>
          (\<exists>a i r c. f = [13, a, i, r + 48, c] \<and> 1 \<le> r \<and> r \<le> 4)"
        using s1(3) s2(3) by auto
      ultimately show ?thesis using s2(2) by blast
    qed
  qed
qed

text \<open>
  Claim C10. For each of the four recognised modes, every port of the mode's vector has a
  relay number in \<^verbatim>\<open>PORTS\<close>, between 1 and 4; \<^verbatim>\<open>set_obs_type\<close> never ends in
  \<^verbatim>\<open>Exception("invalid relay number")\<close>, whatever the driver's configuration; and every frame
  it writes has data byte \<open>r + 48\<close> for a relay \<open>r\<close> in \<open>[1,4]\<close>.
\<close>

theorem relay_indices_from_port_table:
  assumes "m \<in> {''object'', ''dark'', ''flat'', ''thar''}"
  shows "(\<exists>v. map_of OBSERVING_MODES m = Some v \<and>
            list_all (\<lambda>(port_name, settings). case map_of PORTS port_name of
                        None \<Rightarrow> False | Some port_num \<Rightarrow> 1 \<le> port_num \<and> port_num \<le> 4) v) \<and>
         fst (set_obs_type m (self, tr)) \<noteq> Inl InvalidRelayIndex \<and>
         (\<forall>evs f. snd (snd (set_obs_type m (self, tr))) = tr @ evs \<longrightarrow> Write f \<in> set evs \<longrightarrow>
            (\<exists>a i r c. f = [13, a, i, r + 48, c] \<and> 1 \<le> r \<and> r \<le> 4))"
proof -
  from assms obtain v where v: "map_of OBSERVING_MODES m = Some v"
    and ok: "list_all (\<lambda>(port_name, settings). case map_of PORTS port_name of
                        None \<Rightarrow> False | Some port_num \<Rightarrow> 1 \<le> port_num \<and> port_num \<le> 4) v"
    by (auto simp: map_of_OBSERVING_MODES map_of_PORTS)
  from loop_relays [OF ok, of self tr] obtain res evs where
    l: "set_obs_type_loop v (self, tr) = (res, (self, tr @ evs))" "res \<noteq> Inl InvalidRelayIndex"
      "\<forall>f. Write f \<in> set evs \<longrightarrow> (\<exists>a i r c. f = [13, a, i, r + 48, c] \<and> 1 \<le> r \<and> r \<le> 4)"
    by blast
  have "fst (set_obs_type m (self, tr)) \<noteq> Inl InvalidRelayIndex"
    using v l(1,2) by (cases res) (simp_all add: set_obs_type_def bind_act_def sio_emit_def)
  moreover have "\<exists>a i r c. f = [13, a, i, r + 48, c] \<and> 1 \<le> r \<and> r \<le> 4"
    if "snd (snd (set_obs_type m (self, tr))) = tr @ evs'" "Write f \<in> set evs'" for evs' f
  proof (cases res)
    case (Inl e)
    with v l(1) that(1) have "evs' = evs"
      by (simp add: set_obs_type_def bind_act_def)
    with l(3) that(2) show ?thesis by blast
  next
    case (Inr u)
    with v l(1) that(1) have "evs' = evs @ [Emit ''update_status'' (Status_data (instrument_id self) v)]"
      by (simp add: set_obs_type_def bind_act_def sio_emit_def)
    with l(3) that(2) show ?thesis by auto
  qed
  ultimately show ?thesis using v ok by blast
qed

theorem relay_indices_from_port_table_witness:
  "''flat'' \<in> {''object'', ''dark'', ''flat'', ''thar''} \<and>
   fst (set_obs_type ''flat''
     (\<lparr>device = Some \<lparr>repeat = 0, wait = 0\<rparr>, simulation = False, instrument_id = (7::int),
       status_dictionary = []\<rparr>,
      [] :: (int, unit) event list)) \<noteq> Inl InvalidRelayIndex"
  using relay_indices_from_port_table [of "''flat''"
      "\<lparr>device = Some \<lparr>repeat = 0, wait = 0\<rparr>, simulation = False, instrument_id = (7::int),
        status_dictionary = []\<rparr>"
      "[] :: (int, unit) event list"]
  by simp

lemma set_obs_type_dark_calls:
  "set_obs_type ''dark'' (self, tr) =
     bind_act (turn_on 1) (\<lambda>_. bind_act (turn_off 2) (\<lambda>_. bind_act (turn_off 3)
       (\<lambda>_. bind_act (turn_off 4) (\<lambda>_. sio_emit ''update_status''
          (Status_data (instrument_id self)
             [(''Mirror'', ON_STATUS), (''LED'', OFF_STATUS),
              (''ThAr'', OFF_STATUS), (''Tung'', OFF_STATUS)]))))) (self, tr)"
  by (simp add: set_obs_type_def map_of_OBSERVING_MODES loop_unfold bind_act_assoc
        bind_act_return del: set_obs_type_loop.simps)

lemma turn_on_live:
  assumes "device self = Some d" and "0 \<le> wait d" and "1 \<le> n" and "n \<le> 9"
  shows "turn_on n (self, tr) =
           (Inr (), (self, tr @ concat (replicate (nat (repeat d + 1))
              [Write [13, 1, 83, n + 48, (243 - 83 - (n + 48) - 1) mod 256], Sleep (wait d)])))"
  using assms K8056_process_ok [of 1 83 "n + 48" d tr]
  by (simp add: turn_on_def on_device_def K8056_set_def and_255_mod)

lemma turn_off_live:
  assumes "device self = Some d" and "0 \<le> wait d" and "1 \<le> n" and "n \<le> 9"
  shows "turn_off n (self, tr) =
           (Inr (), (self, tr @ concat (replicate (nat (repeat d + 1))
              [Write [13, 1, 67, n + 48, (243 - 67 - (n + 48) - 1) mod 256], Sleep (wait d)])))"
  using assms K8056_process_ok [of 1 67 "n + 48" d tr]
  by (simp add: turn_off_def on_device_def K8056_clear_def and_255_mod)

text \<open>
  Claim C6. The vector of mode dark is Mirror On, LED Off, ThAr Off, Tung Off, and
  \<^verbatim>\<open>set_obs_type("dark")\<close> is, in this order, \<^verbatim>\<open>turn_on(1)\<close> (Mirror), \<^verbatim>\<open>turn_off(2)\<close>,
  \<^verbatim>\<open>turn_off(3)\<close>, \<^verbatim>\<open>turn_off(4)\<close> and the emit of that vector. With a driver attached these
  are one \<^verbatim>\<open>set\<close> on relay 1 and three \<^verbatim>\<open>clear\<close> on relays 2, 3, 4 at card address 1, and
  with a delay \<open>wait \<ge> 0\<close> the trace grows by the frames of exactly these four commands:
  instruction 83 with data 49, then instruction 67 with data 50, 51 and 52.
\<close>

theorem dark_mode_commands:
  "map_of OBSERVING_MODES ''dark'' =
     Some [(''Mirror'', ON_STATUS), (''LED'', OFF_STATUS),
           (''ThAr'', OFF_STATUS), (''Tung'', OFF_STATUS)] \<and>
   map_of PORTS ''Mirror'' = Some 1 \<and>
   set_obs_type ''dark'' (self, tr :: ('i, 'a) event list) =
     bind_act (turn_on 1) (\<lambda>_. bind_act (turn_off 2) (\<lambda>_. bind_act (turn_off 3)
       (\<lambda>_. bind_act (turn_off 4) (\<lambda>_. sio_emit ''update_status''
          (Status_data (instrument_id self)
             [(''Mirror'', ON_STATUS), (''LED'', OFF_STATUS),
              (''ThAr'', OFF_STATUS), (''Tung'', OFF_STATUS)]))))) (self, tr) \<and>
   (device self = Some d \<longrightarrow>
      (\<forall>tr' :: ('i, 'a) event list. turn_on 1 (self, tr') = on_device (K8056_set d 1 1) (self, tr') \<and>
             turn_off 2 (self, tr') = on_device (K8056_clear d 2 1) (self, tr') \<and>
             turn_off 3 (self, tr') = on_device (K8056_clear d 3 1) (self, tr') \<and>
             turn_off 4 (self, tr') = on_device (K8056_clear d 4 1) (self, tr'))) \<and>
   (device self = Some d \<longrightarrow> 0 \<le> wait d \<longrightarrow>
      set_obs_type ''dark'' (self, tr) =
        (Inr (), (self,
           tr @ concat (replicate (nat (repeat d + 1)) [Write [13, 1, 83, 49, 110], Sleep (wait d)])
              @ concat (replicate (nat (repeat d + 1)) [Write [13, 1, 67, 50, 125], Sleep (wait d)])
              @ concat (replicate (nat (repeat d + 1)) [Write [13, 1, 67, 51, 124], Sleep (wait d)])
              @ concat (replicate (nat (repeat d + 1)) [Write [13, 1, 67, 52, 123], Sleep (wait d)])
              @ [Emit ''update_status''
                   (Status_data (instrument_id self)
                      [(''Mirror'', ON_STATUS), (''LED'', OFF_STATUS),
                       (''ThAr'', OFF_STATUS), (''Tung'', OFF_STATUS)])])))"
proof -
  have live: "set_obs_type ''dark'' (self, tr) =
        (Inr (), (self,
           tr @ concat (replicate (nat (repeat d + 1)) [Write [13, 1, 83, 49, 110], Sleep (wait d)])
              @ concat (replicate (nat (repeat d + 1)) [Write [13, 1, 67, 50, 125], Sleep (wait d)])
              @ concat (replicate (nat (repeat d + 1)) [Write [13, 1, 67, 51, 124], Sleep (wait d)])
              @ concat (replicate (nat (repeat d + 1)) [Write [13, 1, 67, 52, 123], Sleep (wait d)])
              @ [Emit ''update_status''
                   (Status_data (instrument_id self)
                      [(''Mirror'', ON_STATUS), (''LED'', OFF_STATUS),
                       (''ThAr'', OFF_STATUS), (''Tung'', OFF_STATUS)])]))"
    if d: "device self = Some d" "0 \<le> wait d"
    by (simp add: set_obs_type_dark_calls bind_act_def sio_emit_def
          turn_on_live [OF d] turn_off_live [OF d])
  have calls: "turn_on n (self, tr') = on_device (K8056_set d n 1) (self, tr') \<and>
      turn_off n (self, tr') = on_device (K8056_clear d n 1) (self, tr')"
    if "device self = Some d" for n and tr' :: "('i, 'a) event list"
    using that by (simp add: turn_on_def turn_off_def)
  from live calls show ?thesis
    by (simp add: map_of_OBSERVING_MODES map_of_PORTS set_obs_type_dark_calls)
qed

theorem dark_mode_commands_witness:
  "device \<lparr>device = Some \<lparr>repeat = 0, wait = 0\<rparr>, simulation = False, instrument_id = (7::int),
           status_dictionary = [(''Mirror'', OFF_STATUS), (''LED'', OFF_STATUS),
                                (''ThAr'', OFF_STATUS), (''Tung'', OFF_STATUS)]\<rparr>
     = Some \<lparr>repeat = 0, wait = 0\<rparr> \<and>
   (0::real) \<le> wait \<lparr>repeat = 0, wait = 0\<rparr> \<and>
   set_obs_type ''dark''
     (\<lparr>device = Some \<lparr>repeat = 0, wait = 0\<rparr>, simulation = False, instrument_id = (7::int),
       status_dictionary = [(''Mirror'', OFF_STATUS), (''LED'', OFF_STATUS),
                            (''ThAr'', OFF_STATUS), (''Tung'', OFF_STATUS)]\<rparr>,
      [] :: (int, unit) event list) =
     (Inr (),
      (\<lparr>device = Some \<lparr>repeat = 0, wait = 0\<rparr>, simulation = False, instrument_id = 7,
        status_dictionary = [(''Mirror'', OFF_STATUS), (''LED'', OFF_STATUS),
                             (''ThAr'', OFF_STATUS), (''Tung'', OFF_STATUS)]\<rparr>,
       [Write [13, 1, 83, 49, 110], Sleep 0, Write [13, 1, 67, 50, 125], Sleep 0,
        Write [13, 1, 67, 51, 124], Sleep 0, Write [13, 1, 67, 52, 123], Sleep 0,
        Emit ''update_status''
          (Status_data 7 [(''Mirror'', ON_STATUS), (''LED'', OFF_STATUS),
                          (''ThAr'', OFF_STATUS), (''Tung'', OFF_STATUS)])]))"
  using dark_mode_commands [THEN conjunct2, THEN conjunct2, THEN conjunct2, THEN conjunct2, of
      "\<lparr>device = Some \<lparr>repeat = 0, wait = 0\<rparr>, simulation = False, instrument_id = (7::int),
        status_dictionary = [(''Mirror'', OFF_STATUS), (''LED'', OFF_STATUS),
                             (''ThAr'', OFF_STATUS), (''Tung'', OFF_STATUS)]\<rparr>"
      "\<lparr>repeat = 0, wait = 0\<rparr>" "[] :: (int, unit) event list"]
  by simp

lemma turn_keeps_object:
  "fst (snd (turn_on p (self, tr))) = self" "fst (snd (turn_off p (self, tr))) = self"
  by (simp_all add: turn_on_def turn_off_def on_device_def split: option.splits prod.splits)

lemma loop_keeps_object: "fst (snd (set_obs_type_loop v (self, tr))) = self"
proof (induction v arbitrary: tr)
  case Nil
  show ?case by (simp add: return_act_def)
next
  case (Cons x v)
  obtain port_name settings where x: "x = (port_name, settings)" by (cases x)
  show ?case
  proof (cases "map_of settings ''value''")
    case None
    with x show ?thesis by (simp add: raise_act_def)
  next
    case (Some status_val)
    show ?thesis
    proof (cases "map_of PORTS port_name")
      case None
      with x Some show ?thesis by (simp add: raise_act_def)
    next
      case port: (Some n)
      define t :: "(('a, 'b) world, unit) act"
        where "t = (if status_val = ''On'' then turn_on n else turn_off n)"
      obtain res self' tr' where r: "t (self, tr) = (res, (self', tr'))"
        by (cases "t (self, tr)") auto
      from turn_keeps_object [of n self tr] r have "self' = self"
        by (auto simp: t_def split: if_splits)
      with r Cons.IH [of tr'] x Some port show ?thesis
        by (cases res) (simp_all add: bind_act_def t_def [symmetric])
    qed
  qed
qed

lemma set_obs_type_keeps_object: "fst (snd (set_obs_type m (self, tr))) = self"
proof (cases "map_of OBSERVING_MODES m")
  case None
  then show ?thesis by (simp add: set_obs_type_def)
next
  case (Some v)
  obtain res self' tr' where r: "set_obs_type_loop v (self, tr) = (res, (self', tr'))"
    by (cases "set_obs_type_loop v (self, tr)") auto
  with loop_keeps_object [of v self tr] have "self' = self" by simp
  with r Some show ?thesis
    by (cases res) (simp_all add: set_obs_type_def bind_act_def sio_emit_def)
qed

lemma Spectrograph_init_port_closed:
  "Spectrograph_init False dev False ident tr = (Inl (SerialException dev), tr)"
  by (simp add: Spectrograph_init_def map_of_OBSERVING_MODES K8056_init_def Serial_def
        bind_act_def)

lemma Spectrograph_init_live:
  "Spectrograph_init True dev False ident tr =
     (Inr \<lparr>device = Some \<lparr>repeat = 0, wait = 0\<rparr>, simulation = False, instrument_id = ident,
           status_dictionary = [(''Mirror'', OFF_STATUS), (''LED'', OFF_STATUS),
                                (''ThAr'', OFF_STATUS), (''Tung'', OFF_STATUS)]\<rparr>,
      tr @ [Open dev 2400, Sleep (1 / 10)])"
  by (simp add: Spectrograph_init_def map_of_OBSERVING_MODES K8056_init_def Serial_def
        bind_act_def return_act_def sleep_def)

text \<open>
  Claim C5 says that after \<^verbatim>\<open>set_obs_type(m)\<close> the controller's state, the
  \<^verbatim>\<open>status_dictionary\<close>, is the static vector of \<open>m\<close>. The handler never assigns
  \<^verbatim>\<open>status_dictionary\<close> (\<open>set_obs_type_keeps_object\<close>): on a simulated spectrograph as
  \<^verbatim>\<open>__init__\<close> builds it, \<^verbatim>\<open>set_obs_type("dark")\<close> emits the dark vector, and
  \<^verbatim>\<open>status_dictionary\<close> is still the object vector, which is not the dark one.
\<close>

theorem status_dictionary_stays_object:
  "Spectrograph_init False ''/dev/cu.usbserial-AK068Y10'' True (7::int)
       ([] :: (int, unit) event list) =
     (Inr \<lparr>device = None, simulation = True, instrument_id = 7,
           status_dictionary = [(''Mirror'', OFF_STATUS), (''LED'', OFF_STATUS),
                                (''ThAr'', OFF_STATUS), (''Tung'', OFF_STATUS)]\<rparr>, []) \<and>
   set_obs_type ''dark''
     (\<lparr>device = None, simulation = True, instrument_id = (7::int),
       status_dictionary = [(''Mirror'', OFF_STATUS), (''LED'', OFF_STATUS),
                            (''ThAr'', OFF_STATUS), (''Tung'', OFF_STATUS)]\<rparr>,
      [] :: (int, unit) event list) =
     (Inr (),
      (\<lparr>device = None, simulation = True, instrument_id = 7,
        status_dictionary = [(''Mirror'', OFF_STATUS), (''LED'', OFF_STATUS),
                             (''ThAr'', OFF_STATUS), (''Tung'', OFF_STATUS)]\<rparr>,
       [Emit ''update_status''
          (Status_data 7 [(''Mirror'', ON_STATUS), (''LED'', OFF_STATUS),
                          (''ThAr'', OFF_STATUS), (''Tung'', OFF_STATUS)])])) \<and>
   map_of OBSERVING_MODES ''dark'' =
     Some [(''Mirror'', ON_STATUS), (''LED'', OFF_STATUS),
           (''ThAr'', OFF_STATUS), (''Tung'', OFF_STATUS)] \<and>
   status_dictionary (fst (snd (set_obs_type ''dark''
     (\<lparr>device = None, simulation = True, instrument_id = (7::int),
       status_dictionary = [(''Mirror'', OFF_STATUS), (''LED'', OFF_STATUS),
                            (''ThAr'', OFF_STATUS), (''Tung'', OFF_STATUS)]\<rparr>,
      [] :: (int, unit) event list))))
     \<noteq> [(''Mirror'', ON_STATUS), (''LED'', OFF_STATUS),
         (''ThAr'', OFF_STATUS), (''Tung'', OFF_STATUS)]"
proof -
  have ne: "ON_STATUS \<noteq> OFF_STATUS" by (simp add: ON_STATUS_def OFF_STATUS_def)
  show ?thesis
    by (simp add: Spectrograph_init_def map_of_OBSERVING_MODES set_obs_type_dark_calls
          bind_act_def turn_on_def turn_off_def sio_emit_def ne [symmetric])
qed

text \<open>
  Claim C9. For every mode and every payload, \<^verbatim>\<open>prepare_observation\<close> is the
  specification's \<^verbatim>\<open>prepareObservation\<close>: it ends as \<^verbatim>\<open>set_obs_type\<close> ends, leaves the
  object as \<^verbatim>\<open>set_obs_type\<close> leaves it, and its trace is that of \<^verbatim>\<open>set_obs_type\<close>
  followed, when that returned normally, by the one message
  \<^verbatim>\<open>spectrograph_changed_ports\<close> carrying the payload unchanged: it adds no port command.
\<close>

theorem prepare_observation_refines:
  "prepare_observation m obs w = prepareObservation_spec m obs w \<and>
   fst (prepare_observation m obs w) = fst (set_obs_type m w) \<and>
   fst (snd (prepare_observation m obs w)) = fst (snd (set_obs_type m w)) \<and>
   snd (snd (prepare_observation m obs w)) =
     snd (snd (set_obs_type m w)) @
       (case fst (set_obs_type m w) of
          Inl e \<Rightarrow> []
        | Inr u \<Rightarrow> [Emit ''spectrograph_changed_ports'' (Instructions obs)])"
proof -
  obtain res self' tr' where r: "set_obs_type m w = (res, (self', tr'))"
    by (cases "set_obs_type m w") auto
  then show ?thesis
    by (cases res)
       (simp_all add: prepare_observation_def prepareObservation_spec_def bind_act_def
          sio_emit_def)
qed

theorem prepare_observation_refines_witness:
  "prepare_observation ''flat'' (42::nat)
     (\<lparr>device = Some \<lparr>repeat = 0, wait = 0\<rparr>, simulation = False, instrument_id = (7::int),
       status_dictionary = []\<rparr>,
      [] :: (int, nat) event list) =
     (Inr (),
      (\<lparr>device = Some \<lparr>repeat = 0, wait = 0\<rparr>, simulation = False, instrument_id = 7,
        status_dictionary = []\<rparr>,
       [Write [13, 1, 83, 49, 110], Sleep 0, Write [13, 1, 83, 50, 109], Sleep 0,
        Write [13, 1, 67, 51, 124], Sleep 0, Write [13, 1, 67, 52, 123], Sleep 0,
        Emit ''update_status''
          (Status_data 7 [(''Mirror'', ON_STATUS), (''LED'', ON_STATUS),
                          (''ThAr'', OFF_STATUS), (''Tung'', OFF_STATUS)]),
        Emit ''spectrograph_changed_ports'' (Instructions 42)]))"
proof -
  have d: "device \<lparr>device = Some \<lparr>repeat = 0, wait = 0\<rparr>, simulation = False,
       instrument_id = (7::int), status_dictionary = []\<rparr> = Some \<lparr>repeat = 0, wait = 0\<rparr>"
    "(0::real) \<le> wait \<lparr>repeat = 0, wait = 0\<rparr>"
    by simp_all
  have "set_obs_type ''flat''
     (\<lparr>device = Some \<lparr>repeat = 0, wait = 0\<rparr>, simulation = False, instrument_id = (7::int),
       status_dictionary = []\<rparr>,
      [] :: (int, nat) event list) =
     (Inr (),
      (\<lparr>device = Some \<lparr>repeat = 0, wait = 0\<rparr>, simulation = False, instrument_id = 7,
        status_dictionary = []\<rparr>,
       [Write [13, 1, 83, 49, 110], Sleep 0, Write [13, 1, 83, 50, 109], Sleep 0,
        Write [13, 1, 67, 51, 124], Sleep 0, Write [13, 1, 67, 52, 123], Sleep 0,
        Emit ''update_status''
          (Status_data 7 [(''Mirror'', ON_STATUS), (''LED'', ON_STATUS),
                          (''ThAr'', OFF_STATUS), (''Tung'', OFF_STATUS)])]))"
    by (simp add: set_obs_type_def map_of_OBSERVING_MODES map_of_PORTS status_value
          bind_act_def return_act_def sio_emit_def turn_on_live [OF d] turn_off_live [OF d])
  with prepare_observation_refines [of "''flat''" "42::nat"
      "(\<lparr>device = Some \<lparr>repeat = 0, wait = 0\<rparr>, simulation = False, instrument_id = (7::int),
         status_dictionary = []\<rparr>, [] :: (int, nat) event list)"]
  show ?thesis
    by (simp add: prepareObservation_spec_def)
qed

end
